theory Spec2Isabelle
  imports Main
begin

section \<open>The chat window component (chat-window.js)\<close>

text \<open>
  The component is a LitElement with four reactive properties. Its logic is the key
  handler of the composer, the content formatter, the deferred scroll to the bottom of the
  message log, and the template of \<open>render\<close>. The markdown engine (markdown-it), the
  highlighter (highlight.js) and the browser are dependencies. The highlighter and the
  engine's parser are parameters of the model; the engine's rendering of a fenced block,
  the one place where it calls repository code, is written out, and so are the few platform
  rules the properties rest on (a disabled control takes no user input, the default action
  of a key, a frame runs the queued animation callbacks, a scroll position is clamped).
  These are kept apart from the component's own functions.
\<close>

subsection \<open>Data\<close>

text \<open>A message as the component reads it: \<open>message.role\<close> and \<open>message.content\<close>,
  both strings (the role is compared with string literals).\<close>

record message =
  role :: string
  content :: string

text \<open>The reactive properties (\<open>static properties\<close>, lines 24-29).\<close>

record chat_window =
  messages :: "message list"
  inputText :: string
  isLoading :: bool
  waitingForFirstToken :: bool

text \<open>A JavaScript exception, as a value.\<close>

datatype js_error = TypeError | Error string

subsection \<open>The markdown engine and the highlight callback (lines 8-21)\<close>

text \<open>highlight.js, as far as the callback uses it: \<open>hljs.getLanguage(lang)\<close> gives the
  language (its name here) or \<open>undefined\<close>; \<open>hljs.highlight(str, {language}).value\<close> is the
  markup of the tokens, or the call throws.\<close>

record hljs =
  hljs_getLanguage :: "string \<Rightarrow> string option"
  hljs_highlight :: "string \<Rightarrow> string \<Rightarrow> js_error + string"

text \<open>The options object given to \<open>new MarkdownIt\<close>.\<close>

record md_options =
  html :: bool
  linkify :: bool
  typographer :: bool
  breaks :: bool
  highlight_option :: "string \<Rightarrow> string \<Rightarrow> js_error + string"

text \<open>The callback of lines 13-20. The \<open>try\<close> has an empty \<open>catch\<close>, so a throwing
  highlighter falls through to \<open>return ''\<close>, as an empty or unknown language does.\<close>

definition highlight :: "hljs \<Rightarrow> string \<Rightarrow> string \<Rightarrow> js_error + string" where
  "highlight h str lang =
     (if lang \<noteq> [] \<and> hljs_getLanguage h lang \<noteq> None then
        (case hljs_highlight h str lang of
           Inr v \<Rightarrow> Inr v
         | Inl e \<Rightarrow> Inr [])
      else Inr [])"

definition md :: "hljs \<Rightarrow> md_options" where
  "md h = \<lparr>html = True, linkify = True, typographer = True, breaks = True,
           highlight_option = highlight h\<rparr>"

text \<open>The engine's side of the \<open>highlight\<close> option. This one line belongs to markdown-it,
  not to the repository; it is the contract the callback is written against (line 19:
  \<open>return ''\<close> means "use external default escaping"): the engine fills a fenced block
  with the callback's result, and with its own escaping of the block's text when the
  result is the empty string. The escaping function is the engine's, a parameter here.\<close>

definition md_fence_content ::
  "(string \<Rightarrow> string) \<Rightarrow> md_options \<Rightarrow> string \<Rightarrow> string \<Rightarrow> js_error + string" where
  "md_fence_content escapeHtml opts str lang =
     (case highlight_option opts str lang of
        Inl e \<Rightarrow> Inl e
      | Inr v \<Rightarrow> Inr (if v = [] then escapeHtml str else v))"

subsection \<open>The content formatter (lines 152-157)\<close>

text \<open>What \<open>formatContent\<close> hands to the template: a string, which Lit inserts as a text
  node (never parsed), or the \<open>unsafeHTML\<close> directive over a string, which Lit parses as
  HTML.\<close>

datatype formatted_content = Text string | UnsafeHTML string

text \<open>The dependencies: \<open>MarkdownIt opts\<close> is \<open>new MarkdownIt(opts).render\<close>.\<close>

record deps =
  MarkdownIt :: "md_options \<Rightarrow> string \<Rightarrow> string"
  the_hljs :: hljs

definition md_render :: "deps \<Rightarrow> string \<Rightarrow> string" where
  "md_render d src = MarkdownIt d (md (the_hljs d)) src"

definition formatContent :: "deps \<Rightarrow> message \<Rightarrow> formatted_content" where
  "formatContent d message =
     (if role message = ''assistant'' then UnsafeHTML (md_render d (content message))
      else Text (content message))"

subsection \<open>The engine over the blocks of a message\<close>

text \<open>markdown-it renders a source block by block, in order. Of its blocks only the fenced
  code block reaches repository code, through the \<open>highlight\<close> option; what the parser
  takes for a block and the markup of every other block are the engine's own and stay
  parameters. A fenced block carries the language name the engine reads from its info
  string, and its text.\<close>

datatype md_block = Fence string string | Other string

record md_engine =
  md_parse :: "string \<Rightarrow> md_block list"
  md_render_other :: "string \<Rightarrow> string"
  md_escapeHtml :: "string \<Rightarrow> string"

text \<open>The engine's markup around the content of a fenced block: the content alone when it
  starts with \<open><pre\<close>, and \<open>pre\<close> and \<open>code\<close> elements around it otherwise, with the class
  \<open>language-\<close> and the name when there is one.\<close>

definition md_fence_html :: "md_engine \<Rightarrow> string \<Rightarrow> string \<Rightarrow> string" where
  "md_fence_html eng lang inner =
     (if take 4 inner = ''<pre'' then inner @ [CHR 0x0A]
      else ''<pre><code''
           @ (if lang = [] then []
              else '' class='' @ [CHR 0x22] @ ''language-'' @ md_escapeHtml eng lang @ [CHR 0x22])
           @ ''>'' @ inner @ ''</code></pre>'' @ [CHR 0x0A])"

definition md_render_block :: "md_engine \<Rightarrow> md_options \<Rightarrow> md_block \<Rightarrow> js_error + string" where
  "md_render_block eng opts b =
     (case b of
        Fence lang str \<Rightarrow>
          (case md_fence_content (md_escapeHtml eng) opts str lang of
             Inl e \<Rightarrow> Inl e
           | Inr inner \<Rightarrow> Inr (md_fence_html eng lang inner))
      | Other src \<Rightarrow> Inr (md_render_other eng src))"

text \<open>The blocks in order; an exception out of one block ends the rendering.\<close>

fun md_render_blocks :: "md_engine \<Rightarrow> md_options \<Rightarrow> md_block list \<Rightarrow> js_error + string" where
  "md_render_blocks eng opts [] = Inr []"
| "md_render_blocks eng opts (b # bs) =
     (case md_render_block eng opts b of
        Inl e \<Rightarrow> Inl e
      | Inr s \<Rightarrow>
          (case md_render_blocks eng opts bs of
             Inl e \<Rightarrow> Inl e
           | Inr t \<Rightarrow> Inr (s @ t)))"

definition md_engine_render :: "md_engine \<Rightarrow> md_options \<Rightarrow> string \<Rightarrow> js_error + string" where
  "md_engine_render eng opts src = md_render_blocks eng opts (md_parse eng src)"

text \<open>The dependency \<open>MarkdownIt\<close> is this engine: wherever the engine returns a string,
  \<open>md.render\<close> returns that string.\<close>

definition runs_engine :: "deps \<Rightarrow> md_engine \<Rightarrow> bool" where
  "runs_engine d eng =
     (\<forall>opts src out. md_engine_render eng opts src = Inr out \<longrightarrow> MarkdownIt d opts src = out)"

subsection \<open>The composer's handlers (lines 139-150 and 227)\<close>

record keyboard_event =
  key :: string
  shiftKey :: bool

text \<open>\<open>new CustomEvent(name)\<close> and \<open>new CustomEvent(name, {detail})\<close>.\<close>

datatype custom_event = CustomEvent string "string option"

text \<open>What a handler does: it may change the component (none does), call
  \<open>e.preventDefault()\<close>, and dispatch events.\<close>

record outcome =
  this_after :: chat_window
  defaultPrevented :: bool
  dispatched :: "custom_event list"

definition handleKeyPress :: "chat_window \<Rightarrow> keyboard_event \<Rightarrow> outcome" where
  "handleKeyPress this e =
     (if key e = ''Enter'' \<and> \<not> shiftKey e then
        \<lparr>this_after = this, defaultPrevented = True,
         dispatched = [CustomEvent ''send-message'' None]\<rparr>
      else \<lparr>this_after = this, defaultPrevented = False, dispatched = []\<rparr>)"

text \<open>The argument is \<open>e.target.value\<close>.\<close>

definition handleInput :: "chat_window \<Rightarrow> string \<Rightarrow> outcome" where
  "handleInput this target_value =
     \<lparr>this_after = this, defaultPrevented = False,
      dispatched = [CustomEvent ''input-change'' (Some target_value)]\<rparr>"

text \<open>The arrow function bound to the button's click (line 227).\<close>

definition send_click :: "chat_window \<Rightarrow> outcome" where
  "send_click this =
     \<lparr>this_after = this, defaultPrevented = False,
      dispatched = [CustomEvent ''send-message'' None]\<rparr>"

subsection \<open>The template (lines 182-236)\<close>

record bubble =
  row_class :: string
  bubble_class :: string
  body :: formatted_content
  typing_indicator :: bool

record textarea_el =
  ta_value :: string
  ta_disabled :: bool
  ta_oninput :: "chat_window \<Rightarrow> string \<Rightarrow> outcome"
  ta_onkeypress :: "chat_window \<Rightarrow> keyboard_event \<Rightarrow> outcome"

record button_el =
  btn_disabled :: bool
  btn_label :: string
  btn_onclick :: "chat_window \<Rightarrow> outcome"

record view =
  bubbles :: "bubble list"
  textarea :: textarea_el
  send_button :: button_el

text \<open>One message of the \<open>map\<close> of lines 191-210. \<open>index === this.messages.length - 1\<close> is
  arithmetic on JavaScript numbers, so the subtraction is on integers.\<close>

definition render_message :: "deps \<Rightarrow> chat_window \<Rightarrow> nat \<Rightarrow> message \<Rightarrow> bubble" where
  "render_message d this index message =
     \<lparr>row_class = (if role message = ''user'' then ''justify-end'' else ''justify-start''),
      bubble_class =
        (if role message = ''user'' then ''bg-blue-500 text-white''
         else ''bg-white text-gray-800''),
      body = formatContent d message,
      typing_indicator =
        (role message = ''assistant''
         \<and> int index = int (length (messages this)) - 1
         \<and> waitingForFirstToken this)\<rparr>"

definition render :: "deps \<Rightarrow> chat_window \<Rightarrow> view" where
  "render d this =
     \<lparr>bubbles =
        map (\<lambda>(index, message). render_message d this index message)
          (enumerate 0 (messages this)),
      textarea =
        \<lparr>ta_value = inputText this, ta_disabled = isLoading this,
         ta_oninput = handleInput, ta_onkeypress = handleKeyPress\<rparr>,
      send_button =
        \<lparr>btn_disabled = isLoading this,
         btn_label = (if isLoading this then ''Sending...'' else ''Send''),
         btn_onclick = send_click\<rparr>\<rparr>"

subsection \<open>The platform around the composer\<close>

text \<open>The live state of the textarea in the page: its text and the insertion point.\<close>

record ui =
  live_text :: string
  caret :: nat

text \<open>What the user can do to the composer: press a key in the textarea, replace its text
  (typing through an input method, pasting, cutting), click the button.\<close>

datatype user_action = KeyPress keyboard_event | Edit string | ClickSend

text \<open>The default action of a key press in a textarea: Enter inserts one line break, a
  key that stands for one character inserts it, any other key inserts nothing.\<close>

definition default_text :: "keyboard_event \<Rightarrow> string" where
  "default_text e =
     (if key e = ''Enter'' then [CHR 0x0A]
      else if length (key e) = 1 then key e else [])"

definition insert_at_caret :: "ui \<Rightarrow> string \<Rightarrow> ui" where
  "insert_at_caret u s =
     \<lparr>live_text = take (caret u) (live_text u) @ s @ drop (caret u) (live_text u),
      caret = min (caret u) (length (live_text u)) + length s\<rparr>"

text \<open>One user action on the rendered composer. A disabled control takes no input: no
  event reaches its handlers and its text cannot be edited. On an enabled textarea a key
  press runs the \<open>keypress\<close> handler; unless the handler prevented it, the default action
  changes the text and the \<open>input\<close> handler runs with the new text.\<close>

definition user_step ::
  "deps \<Rightarrow> chat_window \<Rightarrow> ui \<Rightarrow> user_action \<Rightarrow> chat_window \<times> ui \<times> custom_event list" where
  "user_step d this u a =
     (let v = render d this in
      case a of
        KeyPress e \<Rightarrow>
          if ta_disabled (textarea v) then (this, u, [])
          else
            (let r = ta_onkeypress (textarea v) this e in
             if defaultPrevented r \<or> default_text e = [] then (this_after r, u, dispatched r)
             else
               (let u' = insert_at_caret u (default_text e);
                    r' = ta_oninput (textarea v) (this_after r) (live_text u')
                in (this_after r', u', dispatched r @ dispatched r')))
      | Edit s \<Rightarrow>
          if ta_disabled (textarea v) then (this, u, [])
          else
            (let r = ta_oninput (textarea v) this s
             in (this_after r, \<lparr>live_text = s, caret = length s\<rparr>, dispatched r))
      | ClickSend \<Rightarrow>
          if btn_disabled (send_button v) then (this, u, [])
          else
            (let r = btn_onclick (send_button v) this
             in (this_after r, u, dispatched r)))"

text \<open>A sequence of user actions, the events collected in order.\<close>

fun user_steps ::
  "deps \<Rightarrow> chat_window \<Rightarrow> ui \<Rightarrow> user_action list \<Rightarrow> chat_window \<times> ui \<times> custom_event list" where
  "user_steps d this u [] = (this, u, [])"
| "user_steps d this u (a # as) =
     (case user_step d this u a of
        (this', u', evs) \<Rightarrow>
          (case user_steps d this' u' as of
             (this'', u'', evs') \<Rightarrow> (this'', u'', evs @ evs')))"

definition is_submit :: "custom_event \<Rightarrow> bool" where
  "is_submit ev = (case ev of CustomEvent name detail \<Rightarrow> name = ''send-message'')"

subsection \<open>The scroll controller (lines 159-180)\<close>

text \<open>The argument of \<open>container.scrollTo\<close>.\<close>

record scroll_options =
  scroll_top :: nat
  behavior :: string

text \<open>The viewport \<open>.messages-scroll\<close>: its layout metrics, the calls of \<open>scrollTo\<close> it has
  received, and the offset it is scrolling to.\<close>

record scroll_container =
  scrollHeight :: nat
  clientHeight :: nat
  scrollTo_calls :: "scroll_options list"
  scroll_goal :: nat

definition max_scroll_offset :: "scroll_container \<Rightarrow> nat" where
  "max_scroll_offset c = scrollHeight c - clientHeight c"

text \<open>The platform's \<open>scrollTo\<close>: the requested offset is clamped to the scrollable range,
  and the new request replaces the one in flight.\<close>

definition scrollTo :: "scroll_container \<Rightarrow> scroll_options \<Rightarrow> scroll_container" where
  "scrollTo c opts =
     c\<lparr>scrollTo_calls := scrollTo_calls c @ [opts],
       scroll_goal := min (scroll_top opts) (max_scroll_offset c)\<rparr>"

text \<open>The only callback the component gives to \<open>requestAnimationFrame\<close>.\<close>

datatype frame_callback = ScrollCallback

text \<open>The page as the scroll controller sees it: what
  \<open>this.shadowRoot.querySelector('.messages-scroll')\<close> finds, and the callbacks waiting for
  the next frame. The shadow root itself always exists when the callback runs: LitElement
  creates it before the first update, and \<open>scrollToBottom\<close> is only called after an update.\<close>

record page =
  querySelector_messages_scroll :: "scroll_container option"
  raf_queue :: "frame_callback list"

definition scrollToBottom :: "page \<Rightarrow> page" where
  "scrollToBottom p = p\<lparr>raf_queue := raf_queue p @ [ScrollCallback]\<rparr>"

text \<open>The body of the arrow function of lines 160-169.\<close>

definition scroll_callback :: "page \<Rightarrow> page" where
  "scroll_callback p =
     (case querySelector_messages_scroll p of
        None \<Rightarrow> p
      | Some container \<Rightarrow>
          p\<lparr>querySelector_messages_scroll :=
              Some (scrollTo container
                     \<lparr>scroll_top = scrollHeight container, behavior = ''smooth''\<rparr>)\<rparr>)"

fun run_callback :: "frame_callback \<Rightarrow> page \<Rightarrow> page" where
  "run_callback ScrollCallback p = scroll_callback p"

text \<open>A frame runs the callbacks queued before it, in order, once each.\<close>

definition animation_frame :: "page \<Rightarrow> page" where
  "animation_frame p = fold run_callback (raf_queue p) (p\<lparr>raf_queue := []\<rparr>)"

text \<open>\<open>changedProperties\<close> as the list of the names of the changed properties.\<close>

definition updated :: "string list \<Rightarrow> page \<Rightarrow> page" where
  "updated changedProperties p =
     (if ''messages'' \<in> set changedProperties then scrollToBottom p else p)"

definition firstUpdated :: "page \<Rightarrow> page" where
  "firstUpdated p = scrollToBottom p"

subsection \<open>Sample inputs\<close>

text \<open>A highlighter that knows no language, and an engine that returns its source.\<close>

abbreviation plain_hljs :: hljs where
  "plain_hljs \<equiv>
     \<lparr>hljs_getLanguage = (\<lambda>lang. None), hljs_highlight = (\<lambda>str lang. Inl TypeError)\<rparr>"

abbreviation plain_deps :: deps where
  "plain_deps \<equiv> \<lparr>MarkdownIt = (\<lambda>opts src. src), the_hljs = plain_hljs\<rparr>"

text \<open>A highlighter that knows \<open>js\<close> and wraps the text in a span, and one that knows
  \<open>js\<close> and throws.\<close>

abbreviation span_hljs :: hljs where
  "span_hljs \<equiv>
     \<lparr>hljs_getLanguage = (\<lambda>lang. if lang = ''js'' then Some ''javascript'' else None),
      hljs_highlight = (\<lambda>str lang. Inr (''<span>'' @ str @ ''</span>''))\<rparr>"

abbreviation throwing_hljs :: hljs where
  "throwing_hljs \<equiv>
     \<lparr>hljs_getLanguage = (\<lambda>lang. if lang = ''js'' then Some ''javascript'' else None),
      hljs_highlight = (\<lambda>str lang. Inl (Error ''highlight failed''))\<rparr>"

text \<open>A small engine for the sample messages: a line that starts with three backquotes
  opens a fenced block named by the rest of the line, a line of three backquotes closes
  it, every other line is a paragraph; the text is escaped character by character.\<close>

fun sample_lines :: "string \<Rightarrow> string list" where
  "sample_lines [] = [[]]"
| "sample_lines (c # cs) =
     (if c = CHR 0x0A then [] # sample_lines cs
      else (case sample_lines cs of l # ls \<Rightarrow> (c # l) # ls | [] \<Rightarrow> [[c]]))"

fun sample_blocks :: "(string \<times> string) option \<Rightarrow> string list \<Rightarrow> md_block list" where
  "sample_blocks None [] = []"
| "sample_blocks (Some (lang, str)) [] = [Fence lang str]"
| "sample_blocks None (l # ls) =
     (if take 3 l = ''```'' then sample_blocks (Some (drop 3 l, [])) ls
      else Other l # sample_blocks None ls)"
| "sample_blocks (Some (lang, str)) (l # ls) =
     (if l = ''```'' then Fence lang str # sample_blocks None ls
      else sample_blocks (Some (lang, str @ l @ [CHR 0x0A])) ls)"

definition sample_escape :: "string \<Rightarrow> string" where
  "sample_escape s =
     concat (map (\<lambda>c. if c = CHR ''<'' then ''&lt;'' else if c = CHR ''>'' then ''&gt;''
                       else if c = CHR ''&'' then ''&amp;'' else [c]) s)"

definition sample_engine :: md_engine where
  "sample_engine =
     \<lparr>md_parse = (\<lambda>src. sample_blocks None (sample_lines src)),
      md_render_other = (\<lambda>src. ''<p>'' @ sample_escape src @ ''</p>'' @ [CHR 0x0A]),
      md_escapeHtml = sample_escape\<rparr>"

text \<open>The dependencies around an engine. Where the engine raises, \<open>md.render\<close> raises; that
  case has no string, and the properties below show that it does not arise with the
  options of \<open>md\<close>.\<close>

definition engine_deps :: "md_engine \<Rightarrow> hljs \<Rightarrow> deps" where
  "engine_deps eng h =
     \<lparr>MarkdownIt = (\<lambda>opts src. case md_engine_render eng opts src of Inr out \<Rightarrow> out | Inl e \<Rightarrow> []),
      the_hljs = h\<rparr>"

text \<open>An assistant message with a paragraph, a fenced block with the given tag, and a
  paragraph.\<close>

abbreviation fenced_message :: "string \<Rightarrow> message" where
  "fenced_message lang \<equiv>
     \<lparr>role = ''assistant'',
      content = ''Try:\<newline>```'' @ lang @ ''\<newline>a < b\<newline>```\<newline>Done.''\<rparr>"

abbreviation idle_window :: "string \<Rightarrow> chat_window" where
  "idle_window draft \<equiv>
     \<lparr>messages = [], inputText = draft, isLoading = False, waitingForFirstToken = False\<rparr>"

abbreviation loading_window :: "string \<Rightarrow> chat_window" where
  "loading_window draft \<equiv>
     \<lparr>messages = [], inputText = draft, isLoading = True, waitingForFirstToken = False\<rparr>"

abbreviation pending_window :: chat_window where
  "pending_window \<equiv>
     \<lparr>messages = [\<lparr>role = ''user'', content = ''hi''\<rparr>, \<lparr>role = ''assistant'', content = []\<rparr>],
      inputText = [], isLoading = True, waitingForFirstToken = True\<rparr>"

abbreviation enter_key :: "bool \<Rightarrow> keyboard_event" where
  "enter_key shift \<equiv> \<lparr>key = ''Enter'', shiftKey = shift\<rparr>"

abbreviation smooth_to_bottom :: "scroll_container \<Rightarrow> scroll_options" where
  "smooth_to_bottom c \<equiv> \<lparr>scroll_top = scrollHeight c, behavior = ''smooth''\<rparr>"

abbreviation viewport_500 :: scroll_container where
  "viewport_500 \<equiv>
     \<lparr>scrollHeight = 500, clientHeight = 200, scrollTo_calls = [], scroll_goal = 0\<rparr>"

section \<open>Properties\<close>

subsection \<open>The content formatter\<close>

text \<open>
  C1. For a message whose role is \<open>user\<close>, \<open>formatContent\<close> returns the content itself, as
  text: the string goes to the template unchanged and is never given to the markdown
  engine, whatever it contains.
\<close>

theorem formatContent_user_literal:
  "role m = ''user'' \<Longrightarrow> formatContent d m = Text (content m)"
  by (simp add: formatContent_def)

theorem formatContent_user_literal_witness:
  "role \<lparr>role = ''user'', content = ''<b>**hi**</b>''\<rparr> = ''user''
   \<and> formatContent plain_deps \<lparr>role = ''user'', content = ''<b>**hi**</b>''\<rparr>
       = Text ''<b>**hi**</b>''"
  using formatContent_user_literal
    [of "\<lparr>role = ''user'', content = ''<b>**hi**</b>''\<rparr>" plain_deps]
  by simp

text \<open>For an assistant message the formatter adds nothing to and removes nothing from what
  the engine renders: the engine is configured with \<open>html: true\<close>, and its output goes to
  the template as HTML to parse.\<close>

lemma formatContent_assistant:
  "role m = ''assistant'' \<Longrightarrow>
   formatContent d m = UnsafeHTML (MarkdownIt d (md (the_hljs d)) (content m))
   \<and> html (md (the_hljs d))"
  by (simp add: formatContent_def md_render_def md_def)

subsection \<open>The highlight callback and the fenced blocks of a message\<close>

lemma highlight_returns: "\<exists>v. highlight h str lang = Inr v"
  by (simp add: highlight_def split: sum.split)

lemma highlight_recognized:
  assumes "lang \<noteq> []" and "hljs_getLanguage h lang = Some l"
    and "hljs_highlight h str lang = Inr v"
  shows "highlight h str lang = Inr v"
  using assms by (simp add: highlight_def)

lemma highlight_fallback:
  assumes "lang = [] \<or> hljs_getLanguage h lang = None \<or> (\<exists>e. hljs_highlight h str lang = Inl e)"
  shows "highlight h str lang = Inr []"
  using assms by (auto simp add: highlight_def)

lemma runs_engine_engine_deps: "runs_engine (engine_deps eng h) eng"
  by (simp add: runs_engine_def engine_deps_def)

lemma md_fence_html_contains: "\<exists>pre post. md_fence_html eng lang inner = pre @ inner @ post"
proof (cases "take 4 inner = ''<pre''")
  case True
  then have "md_fence_html eng lang inner = [] @ inner @ [CHR 0x0A]"
    by (simp add: md_fence_html_def)
  then show ?thesis by blast
next
  case False
  let ?pre = "''<pre><code''
           @ (if lang = [] then []
              else '' class='' @ [CHR 0x22] @ ''language-'' @ md_escapeHtml eng lang @ [CHR 0x22])
           @ ''>''"
  from False have "md_fence_html eng lang inner = ?pre @ inner @ (''</code></pre>'' @ [CHR 0x0A])"
    by (simp add: md_fence_html_def)
  then show ?thesis by blast
qed

lemma md_render_block_returns: "\<exists>s. md_render_block eng (md h) b = Inr s"
proof (cases b)
  case (Fence lang str)
  obtain v where "highlight h str lang = Inr v" using highlight_returns by blast
  with Fence show ?thesis
    by (simp add: md_render_block_def md_fence_content_def md_def)
next
  case (Other src)
  then show ?thesis by (simp add: md_render_block_def)
qed

lemma md_render_blocks_returns: "\<exists>s. md_render_blocks eng (md h) bs = Inr s"
proof (induction bs)
  case Nil
  show ?case by simp
next
  case (Cons b bs)
  obtain s where "md_render_block eng (md h) b = Inr s" using md_render_block_returns by blast
  moreover obtain t where "md_render_blocks eng (md h) bs = Inr t" using Cons.IH by blast
  ultimately show ?case by simp
qed

lemma md_render_blocks_append:
  "md_render_blocks eng opts xs = Inr a \<Longrightarrow> md_render_blocks eng opts ys = Inr b \<Longrightarrow>
   md_render_blocks eng opts (xs @ ys) = Inr (a @ b)"
  by (induction xs arbitrary: a) (auto split: sum.splits)

lemma md_render_blocks_at:
  assumes "i < length bs" and "md_render_block eng (md h) (bs ! i) = Inr s"
  shows "\<exists>before after.
           md_render_blocks eng (md h) (take i bs) = Inr before
         \<and> md_render_blocks eng (md h) (drop (Suc i) bs) = Inr after
         \<and> md_render_blocks eng (md h) bs = Inr (before @ s @ after)"
proof -
  obtain before where b: "md_render_blocks eng (md h) (take i bs) = Inr before"
    using md_render_blocks_returns by blast
  obtain after where a: "md_render_blocks eng (md h) (drop (Suc i) bs) = Inr after"
    using md_render_blocks_returns by blast
  from assms(2) a have "md_render_blocks eng (md h) (bs ! i # drop (Suc i) bs) = Inr (s @ after)"
    by simp
  with b have "md_render_blocks eng (md h) (take i bs @ bs ! i # drop (Suc i) bs)
      = Inr (before @ s @ after)"
    by (rule md_render_blocks_append)
  with assms(1) have "md_render_blocks eng (md h) bs = Inr (before @ s @ after)"
    by (simp add: id_take_nth_drop [symmetric])
  with a b show ?thesis by blast
qed

lemma formatContent_engine:
  assumes "runs_engine d eng" and "role m = ''assistant''"
    and "md_render_blocks eng (md (the_hljs d)) (md_parse eng (content m)) = Inr out"
  shows "formatContent d m = UnsafeHTML out"
  using assms by (simp add: formatContent_def md_render_def runs_engine_def md_engine_render_def)

text \<open>
  C7 (amended). Take an assistant message in which the engine finds a fenced code block
  whose language tag is not empty and is known to the highlighter, and let the
  highlighting of that block not throw. Then the output of \<open>formatContent\<close> is the markup
  of the blocks before it, the engine's fence markup around the highlighter's token markup
  for the block's text (around the escaped text when that markup is the empty string), and
  the markup of the blocks after it: the output contains the token markup.
\<close>

theorem formatContent_highlighted_block:
  assumes "runs_engine d eng" and "role m = ''assistant''"
    and "i < length (md_parse eng (content m))"
    and "md_parse eng (content m) ! i = Fence lang str"
    and "lang \<noteq> []" and "hljs_getLanguage (the_hljs d) lang = Some l"
    and "hljs_highlight (the_hljs d) str lang = Inr v"
  shows "\<exists>before after.
           md_render_blocks eng (md (the_hljs d)) (take i (md_parse eng (content m))) = Inr before
         \<and> md_render_blocks eng (md (the_hljs d)) (drop (Suc i) (md_parse eng (content m)))
             = Inr after
         \<and> formatContent d m =
             UnsafeHTML (before
                         @ md_fence_html eng lang (if v = [] then md_escapeHtml eng str else v)
                         @ after)
         \<and> (\<exists>pre post. formatContent d m = UnsafeHTML (pre @ v @ post))
         \<and> highlight (the_hljs d) str lang = Inr v"
proof -
  let ?h = "the_hljs d"
  let ?bs = "md_parse eng (content m)"
  let ?inner = "if v = [] then md_escapeHtml eng str else v"
  from assms(5-7) have hl: "highlight ?h str lang = Inr v" by (rule highlight_recognized)
  with assms(4) have "md_render_block eng (md ?h) (?bs ! i) = Inr (md_fence_html eng lang ?inner)"
    by (simp add: md_render_block_def md_fence_content_def md_def)
  from md_render_blocks_at [OF assms(3) this]
  obtain before after where b: "md_render_blocks eng (md ?h) (take i ?bs) = Inr before"
    and a: "md_render_blocks eng (md ?h) (drop (Suc i) ?bs) = Inr after"
    and r: "md_render_blocks eng (md ?h) ?bs = Inr (before @ md_fence_html eng lang ?inner @ after)"
    by blast
  from assms(1,2) r
  have f: "formatContent d m = UnsafeHTML (before @ md_fence_html eng lang ?inner @ after)"
    by (rule formatContent_engine)
  obtain p q where pq: "md_fence_html eng lang ?inner = p @ ?inner @ q"
    using md_fence_html_contains by blast
  have "\<exists>pre post. formatContent d m = UnsafeHTML (pre @ v @ post)"
  proof (cases "v = []")
    case True
    with f have "formatContent d m
        = UnsafeHTML ([] @ v @ (before @ md_fence_html eng lang ?inner @ after))"
      by simp
    then show ?thesis by blast
  next
    case False
    with f pq have "formatContent d m = UnsafeHTML ((before @ p) @ v @ (q @ after))" by simp
    then show ?thesis by blast
  qed
  with b a f hl show ?thesis by blast
qed

theorem formatContent_highlighted_block_witness:
  "runs_engine (engine_deps sample_engine span_hljs) sample_engine
   \<and> role (fenced_message ''js'') = ''assistant''
   \<and> md_parse sample_engine (content (fenced_message ''js''))
       = [Other ''Try:'', Fence ''js'' ''a < b\<newline>'', Other ''Done.'']
   \<and> hljs_getLanguage span_hljs ''js'' = Some ''javascript''
   \<and> hljs_highlight span_hljs ''a < b\<newline>'' ''js'' = Inr ''<span>a < b\<newline></span>''
   \<and> (\<exists>pre post. formatContent (engine_deps sample_engine span_hljs) (fenced_message ''js'')
         = UnsafeHTML (pre @ ''<span>a < b\<newline></span>'' @ post))
   \<and> formatContent (engine_deps sample_engine span_hljs) (fenced_message ''js'')
       = UnsafeHTML (''<p>Try:</p>\<newline><pre><code class='' @ [CHR 0x22] @ ''language-js''
           @ [CHR 0x22] @ ''><span>a < b\<newline></span></code></pre>\<newline><p>Done.</p>\<newline>'')"
proof -
  let ?d = "engine_deps sample_engine span_hljs"
  let ?m = "fenced_message ''js''"
  have r: "runs_engine ?d sample_engine" by (simp add: runs_engine_def engine_deps_def)
  have a: "role ?m = ''assistant''" by simp
  have p: "md_parse sample_engine (content ?m)
       = [Other ''Try:'', Fence ''js'' ''a < b\<newline>'', Other ''Done.'']"
    by (simp add: sample_engine_def)
  have i: "1 < length (md_parse sample_engine (content ?m))" by (simp only: p) simp
  have b: "md_parse sample_engine (content ?m) ! 1 = Fence ''js'' ''a < b\<newline>''"
    by (simp only: p) simp
  have n: "''js'' \<noteq> []" by simp
  have g: "hljs_getLanguage (the_hljs ?d) ''js'' = Some ''javascript''"
    by (simp add: engine_deps_def)
  have v: "hljs_highlight (the_hljs ?d) ''a < b\<newline>'' ''js'' = Inr ''<span>a < b\<newline></span>''"
    by (simp add: engine_deps_def)
  from formatContent_highlighted_block [OF r a i b n g v]
  have c: "\<exists>pre post. formatContent ?d ?m = UnsafeHTML (pre @ ''<span>a < b\<newline></span>'' @ post)"
    by blast
  have f: "formatContent ?d ?m
       = UnsafeHTML (''<p>Try:</p>\<newline><pre><code class='' @ [CHR 0x22] @ ''language-js''
           @ [CHR 0x22] @ ''><span>a < b\<newline></span></code></pre>\<newline><p>Done.</p>\<newline>'')"
    by (simp add: formatContent_def md_render_def engine_deps_def md_engine_render_def
      sample_engine_def md_render_block_def md_fence_content_def md_def highlight_def
      md_fence_html_def sample_escape_def)
  have g': "hljs_getLanguage span_hljs ''js'' = Some ''javascript''" by simp
  have v': "hljs_highlight span_hljs ''a < b\<newline>'' ''js'' = Inr ''<span>a < b\<newline></span>''"
    by simp
  show ?thesis
    by (intro conjI) (fact r a p g' v' c f)+
qed

text \<open>
  C7 as stated fails when the highlighter knows the language and throws: the empty
  \<open>catch\<close> swallows the exception, the callback returns the empty string, and the
  formatted message holds the block's escaped text with no token markup.
\<close>

theorem formatContent_throwing_highlighter:
  "hljs_getLanguage throwing_hljs ''js'' = Some ''javascript''
   \<and> md_parse sample_engine (content (fenced_message ''js''))
       = [Other ''Try:'', Fence ''js'' ''a < b\<newline>'', Other ''Done.'']
   \<and> highlight throwing_hljs ''a < b\<newline>'' ''js'' = Inr []
   \<and> formatContent (engine_deps sample_engine throwing_hljs) (fenced_message ''js'')
       = UnsafeHTML (''<p>Try:</p>\<newline><pre><code class='' @ [CHR 0x22] @ ''language-js''
           @ [CHR 0x22] @ ''>a &lt; b\<newline></code></pre>\<newline><p>Done.</p>\<newline>'')"
  by (simp add: formatContent_def md_render_def engine_deps_def md_engine_render_def
      sample_engine_def md_render_block_def md_fence_content_def md_def highlight_def
      md_fence_html_def sample_escape_def)

text \<open>
  C8. Take an assistant message in which the engine finds a fenced code block whose
  language tag is empty, or unknown to the highlighter, or whose highlighting throws. Then
  the callback returns the empty string for that block, and the output of
  \<open>formatContent\<close> is the markup of the blocks before it, the engine's fence markup around
  the escaped text of the block, and the markup of the blocks after it: the block's text is
  in the output, escaped, and every other block is rendered as it is without the failure.
  Nothing is raised: with the options of \<open>md\<close> the engine returns on every source, and
  the callback returns on every block.
\<close>

theorem formatContent_fallback_block:
  assumes "runs_engine d eng" and "role m = ''assistant''"
    and "i < length (md_parse eng (content m))"
    and "md_parse eng (content m) ! i = Fence lang str"
    and "lang = [] \<or> hljs_getLanguage (the_hljs d) lang = None
         \<or> (\<exists>e. hljs_highlight (the_hljs d) str lang = Inl e)"
  shows "(\<exists>before after.
           md_render_blocks eng (md (the_hljs d)) (take i (md_parse eng (content m))) = Inr before
         \<and> md_render_blocks eng (md (the_hljs d)) (drop (Suc i) (md_parse eng (content m)))
             = Inr after
         \<and> formatContent d m =
             UnsafeHTML (before @ md_fence_html eng lang (md_escapeHtml eng str) @ after))
     \<and> (\<exists>pre post. formatContent d m = UnsafeHTML (pre @ md_escapeHtml eng str @ post))
     \<and> (\<forall>src. \<exists>out. md_engine_render eng (md (the_hljs d)) src = Inr out)
     \<and> (\<forall>str' lang'. \<exists>v. highlight (the_hljs d) str' lang' = Inr v)
     \<and> highlight (the_hljs d) str lang = Inr []"
proof -
  let ?h = "the_hljs d"
  let ?bs = "md_parse eng (content m)"
  let ?inner = "md_escapeHtml eng str"
  from assms(5) have hl: "highlight ?h str lang = Inr []" by (rule highlight_fallback)
  with assms(4) have "md_render_block eng (md ?h) (?bs ! i) = Inr (md_fence_html eng lang ?inner)"
    by (simp add: md_render_block_def md_fence_content_def md_def)
  from md_render_blocks_at [OF assms(3) this]
  obtain before after where b: "md_render_blocks eng (md ?h) (take i ?bs) = Inr before"
    and a: "md_render_blocks eng (md ?h) (drop (Suc i) ?bs) = Inr after"
    and r: "md_render_blocks eng (md ?h) ?bs = Inr (before @ md_fence_html eng lang ?inner @ after)"
    by blast
  from assms(1,2) r
  have f: "formatContent d m = UnsafeHTML (before @ md_fence_html eng lang ?inner @ after)"
    by (rule formatContent_engine)
  obtain p q where pq: "md_fence_html eng lang ?inner = p @ ?inner @ q"
    using md_fence_html_contains by blast
  with f have "formatContent d m = UnsafeHTML ((before @ p) @ ?inner @ (q @ after))" by simp
  then have c: "\<exists>pre post. formatContent d m = UnsafeHTML (pre @ ?inner @ post)" by blast
  have t: "\<forall>src. \<exists>out. md_engine_render eng (md ?h) src = Inr out"
    by (simp add: md_engine_render_def md_render_blocks_returns)
  have u: "\<forall>str' lang'. \<exists>v. highlight ?h str' lang' = Inr v"
    by (simp add: highlight_returns)
  from b a f have "\<exists>before after.
           md_render_blocks eng (md ?h) (take i ?bs) = Inr before
         \<and> md_render_blocks eng (md ?h) (drop (Suc i) ?bs) = Inr after
         \<and> formatContent d m = UnsafeHTML (before @ md_fence_html eng lang ?inner @ after)"
    by blast
  with c t u hl show ?thesis by blast
qed

theorem formatContent_fallback_block_witness:
  "runs_engine (engine_deps sample_engine throwing_hljs) sample_engine
   \<and> role (fenced_message ''js'') = ''assistant''
   \<and> md_parse sample_engine (content (fenced_message ''js''))
       = [Other ''Try:'', Fence ''js'' ''a < b\<newline>'', Other ''Done.'']
   \<and> hljs_highlight throwing_hljs ''a < b\<newline>'' ''js'' = Inl (Error ''highlight failed'')
   \<and> md_escapeHtml sample_engine ''a < b\<newline>'' = ''a &lt; b\<newline>''
   \<and> (\<exists>pre post. formatContent (engine_deps sample_engine throwing_hljs) (fenced_message ''js'')
         = UnsafeHTML (pre @ ''a &lt; b\<newline>'' @ post))
   \<and> formatContent (engine_deps sample_engine throwing_hljs) (fenced_message ''js'')
       = UnsafeHTML (''<p>Try:</p>\<newline><pre><code class='' @ [CHR 0x22] @ ''language-js''
           @ [CHR 0x22] @ ''>a &lt; b\<newline></code></pre>\<newline><p>Done.</p>\<newline>'')
   \<and> formatContent (engine_deps sample_engine span_hljs) (fenced_message ''cobol'')
       = UnsafeHTML (''<p>Try:</p>\<newline><pre><code class='' @ [CHR 0x22] @ ''language-cobol''
           @ [CHR 0x22] @ ''>a &lt; b\<newline></code></pre>\<newline><p>Done.</p>\<newline>'')
   \<and> formatContent (engine_deps sample_engine span_hljs) (fenced_message [])
       = UnsafeHTML ''<p>Try:</p>\<newline><pre><code>a &lt; b\<newline></code></pre>\<newline><p>Done.</p>\<newline>''"
proof -
  let ?d = "engine_deps sample_engine throwing_hljs"
  let ?m = "fenced_message ''js''"
  have r: "runs_engine ?d sample_engine" by (simp add: runs_engine_def engine_deps_def)
  have a: "role ?m = ''assistant''" by simp
  have p: "md_parse sample_engine (content ?m)
       = [Other ''Try:'', Fence ''js'' ''a < b\<newline>'', Other ''Done.'']"
    by (simp add: sample_engine_def)
  have i: "1 < length (md_parse sample_engine (content ?m))" by (simp only: p) simp
  have b: "md_parse sample_engine (content ?m) ! 1 = Fence ''js'' ''a < b\<newline>''"
    by (simp only: p) simp
  have t: "hljs_highlight throwing_hljs ''a < b\<newline>'' ''js'' = Inl (Error ''highlight failed'')"
    by simp
  have x: "''js'' = [] \<or> hljs_getLanguage (the_hljs ?d) ''js'' = None
         \<or> (\<exists>e. hljs_highlight (the_hljs ?d) ''a < b\<newline>'' ''js'' = Inl e)"
    by (simp add: engine_deps_def)
  have e: "md_escapeHtml sample_engine ''a < b\<newline>'' = ''a &lt; b\<newline>''"
    by (simp add: sample_engine_def sample_escape_def)
  from formatContent_fallback_block [OF r a i b x]
  have "\<exists>pre post. formatContent ?d ?m
      = UnsafeHTML (pre @ md_escapeHtml sample_engine ''a < b\<newline>'' @ post)"
    by blast
  then have c: "\<exists>pre post. formatContent ?d ?m = UnsafeHTML (pre @ ''a &lt; b\<newline>'' @ post)"
    by (simp only: e)
  have f: "formatContent ?d ?m
       = UnsafeHTML (''<p>Try:</p>\<newline><pre><code class='' @ [CHR 0x22] @ ''language-js''
           @ [CHR 0x22] @ ''>a &lt; b\<newline></code></pre>\<newline><p>Done.</p>\<newline>'')"
    by (simp add: formatContent_def md_render_def engine_deps_def md_engine_render_def
      sample_engine_def md_render_block_def md_fence_content_def md_def highlight_def
      md_fence_html_def sample_escape_def)
  have f2: "formatContent (engine_deps sample_engine span_hljs) (fenced_message ''cobol'')
       = UnsafeHTML (''<p>Try:</p>\<newline><pre><code class='' @ [CHR 0x22] @ ''language-cobol''
           @ [CHR 0x22] @ ''>a &lt; b\<newline></code></pre>\<newline><p>Done.</p>\<newline>'')"
    by (simp add: formatContent_def md_render_def engine_deps_def md_engine_render_def
      sample_engine_def md_render_block_def md_fence_content_def md_def highlight_def
      md_fence_html_def sample_escape_def)
  have f3: "formatContent (engine_deps sample_engine span_hljs) (fenced_message [])
       = UnsafeHTML ''<p>Try:</p>\<newline><pre><code>a &lt; b\<newline></code></pre>\<newline><p>Done.</p>\<newline>''"
    by (simp add: formatContent_def md_render_def engine_deps_def md_engine_render_def
      sample_engine_def md_render_block_def md_fence_content_def md_def highlight_def
      md_fence_html_def sample_escape_def)
  show ?thesis
    by (intro conjI) (fact r a p t e c f f2 f3)+
qed

subsection \<open>The composer\<close>

lemma user_step_idle_key:
  "\<not> isLoading this \<Longrightarrow>
   user_step d this u (KeyPress e) =
     (if key e = ''Enter'' \<and> \<not> shiftKey e then (this, u, [CustomEvent ''send-message'' None])
      else if default_text e = [] then (this, u, [])
      else (this, insert_at_caret u (default_text e),
            [CustomEvent ''input-change'' (Some (live_text (insert_at_caret u (default_text e))))]))"
  by (simp add: user_step_def render_def handleKeyPress_def handleInput_def Let_def)

lemma user_step_idle_click:
  "\<not> isLoading this \<Longrightarrow>
   user_step d this u ClickSend = (this, u, [CustomEvent ''send-message'' None])"
  by (simp add: user_step_def render_def send_click_def)

lemma user_step_loading: "isLoading this \<Longrightarrow> user_step d this u a = (this, u, [])"
  by (cases a) (simp_all add: user_step_def render_def)

lemma length_insert_at_caret:
  "length (live_text (insert_at_caret u s)) = length (live_text u) + length s"
  by (simp add: insert_at_caret_def)

text \<open>
  C3. While \<open>isLoading\<close> is false, a press of Enter without Shift prevents the default
  action and dispatches exactly one event, \<open>send-message\<close>; the text of the textarea is
  unchanged. A press of Enter with Shift prevents nothing and dispatches no
  \<open>send-message\<close>: the default action inserts one line break at the insertion point, the
  text is one character longer, the only event is the \<open>input-change\<close> that carries the new
  text, and the component is unchanged (\<open>isLoading\<close> is still false).
\<close>

theorem enter_key_idle:
  assumes "\<not> isLoading this" and "key e = ''Enter''"
  shows "(if shiftKey e then
            \<not> defaultPrevented (handleKeyPress this e)
            \<and> user_step d this u (KeyPress e) =
                (this, insert_at_caret u [CHR 0x0A],
                 [CustomEvent ''input-change'' (Some (live_text (insert_at_caret u [CHR 0x0A])))])
            \<and> live_text (insert_at_caret u [CHR 0x0A]) =
                take (caret u) (live_text u) @ [CHR 0x0A] @ drop (caret u) (live_text u)
            \<and> length (live_text (insert_at_caret u [CHR 0x0A])) = Suc (length (live_text u))
          else
            defaultPrevented (handleKeyPress this e)
            \<and> user_step d this u (KeyPress e) = (this, u, [CustomEvent ''send-message'' None]))"
  using assms
  by (simp add: user_step_idle_key default_text_def handleKeyPress_def length_insert_at_caret)
     (simp add: insert_at_caret_def)

theorem enter_key_idle_witness:
  "\<not> isLoading (idle_window ''hello'') \<and> key (enter_key False) = ''Enter''
   \<and> user_step plain_deps (idle_window ''hello'') \<lparr>live_text = ''hello'', caret = 5\<rparr>
        (KeyPress (enter_key False))
       = (idle_window ''hello'', \<lparr>live_text = ''hello'', caret = 5\<rparr>,
          [CustomEvent ''send-message'' None])
   \<and> user_step plain_deps (idle_window ''hello'') \<lparr>live_text = ''hello'', caret = 5\<rparr>
        (KeyPress (enter_key True))
       = (idle_window ''hello'', \<lparr>live_text = ''hello'' @ [CHR 0x0A], caret = 6\<rparr>,
          [CustomEvent ''input-change'' (Some (''hello'' @ [CHR 0x0A]))])"
  using enter_key_idle
      [of "idle_window ''hello''" "enter_key False" plain_deps "\<lparr>live_text = ''hello'', caret = 5\<rparr>"]
    enter_key_idle
      [of "idle_window ''hello''" "enter_key True" plain_deps "\<lparr>live_text = ''hello'', caret = 5\<rparr>"]
  by (simp add: insert_at_caret_def)

text \<open>
  C6. While \<open>isLoading\<close> is true the textarea and the button are both rendered disabled,
  so no sequence of user actions (key presses, edits, clicks) dispatches any event, a
  \<open>send-message\<close> least of all, and none changes the text of the textarea.
\<close>

theorem loading_inert:
  "isLoading this \<Longrightarrow> user_steps d this u acts = (this, u, [])"
  by (induction acts) (simp_all add: user_step_loading)

theorem loading_inert_witness:
  "isLoading (loading_window ''draft'')
   \<and> user_steps plain_deps (loading_window ''draft'') \<lparr>live_text = ''draft'', caret = 5\<rparr>
        [KeyPress (enter_key False), Edit ''other'', KeyPress \<lparr>key = ''a'', shiftKey = False\<rparr>,
         ClickSend]
       = (loading_window ''draft'', \<lparr>live_text = ''draft'', caret = 5\<rparr>, [])"
  using loading_inert
    [of "loading_window ''draft''" plain_deps "\<lparr>live_text = ''draft'', caret = 5\<rparr>"
        "[KeyPress (enter_key False), Edit ''other'', KeyPress \<lparr>key = ''a'', shiftKey = False\<rparr>,
          ClickSend]"]
  by simp

text \<open>
  C10. While \<open>isLoading\<close> is false, Enter without Shift and a click on the button each
  dispatch \<open>send-message\<close> whatever the draft is, the empty draft and a draft of blanks
  included: nothing in either path reads the draft.
\<close>

theorem submit_any_draft:
  assumes "\<not> isLoading this" and "key e = ''Enter''" and "\<not> shiftKey e"
  shows "user_step d (this\<lparr>inputText := draft\<rparr>) (u\<lparr>live_text := draft\<rparr>) (KeyPress e)
           = (this\<lparr>inputText := draft\<rparr>, u\<lparr>live_text := draft\<rparr>,
              [CustomEvent ''send-message'' None])
     \<and> user_step d (this\<lparr>inputText := draft\<rparr>) (u\<lparr>live_text := draft\<rparr>) ClickSend
           = (this\<lparr>inputText := draft\<rparr>, u\<lparr>live_text := draft\<rparr>,
              [CustomEvent ''send-message'' None])"
  using assms by (simp add: user_step_idle_key user_step_idle_click)

theorem submit_any_draft_witness:
  "\<not> isLoading (idle_window ''x'') \<and> key (enter_key False) = ''Enter''
   \<and> \<not> shiftKey (enter_key False)
   \<and> user_step plain_deps (idle_window []) \<lparr>live_text = [], caret = 0\<rparr>
        (KeyPress (enter_key False))
       = (idle_window [], \<lparr>live_text = [], caret = 0\<rparr>, [CustomEvent ''send-message'' None])
   \<and> user_step plain_deps (idle_window ''   '') \<lparr>live_text = ''   '', caret = 0\<rparr> ClickSend
       = (idle_window ''   '', \<lparr>live_text = ''   '', caret = 0\<rparr>,
          [CustomEvent ''send-message'' None])"
  using submit_any_draft
      [of "idle_window ''x''" "enter_key False" plain_deps "[]" "\<lparr>live_text = ''x'', caret = 0\<rparr>"]
    submit_any_draft
      [of "idle_window ''x''" "enter_key False" plain_deps "''   ''"
          "\<lparr>live_text = ''x'', caret = 0\<rparr>"]
  by simp

subsection \<open>The message list\<close>

lemma length_bubbles: "length (bubbles (render d this)) = length (messages this)"
  by (simp add: render_def)

lemma nth_bubbles:
  "i < length (messages this) \<Longrightarrow>
   bubbles (render d this) ! i = render_message d this i (messages this ! i)"
  by (simp add: render_def nth_enumerate_eq)

lemma indicator_nth:
  "i < length (messages this) \<Longrightarrow>
   typing_indicator (bubbles (render d this) ! i) =
     (role (messages this ! i) = ''assistant'' \<and> Suc i = length (messages this)
      \<and> waitingForFirstToken this)"
  by (auto simp add: nth_bubbles render_message_def)

lemma indicator_exists_iff:
  "(\<exists>i < length (bubbles (render d this)). typing_indicator (bubbles (render d this) ! i))
     \<longleftrightarrow> (messages this \<noteq> [] \<and> role (last (messages this)) = ''assistant''
           \<and> waitingForFirstToken this)"
proof
  assume "\<exists>i < length (bubbles (render d this)). typing_indicator (bubbles (render d this) ! i)"
  then obtain i where i: "i < length (messages this)"
    and t: "typing_indicator (bubbles (render d this) ! i)"
    by (auto simp add: length_bubbles)
  from i t have r: "role (messages this ! i) = ''assistant''"
    and l: "Suc i = length (messages this)" and w: "waitingForFirstToken this"
    by (simp_all add: indicator_nth)
  from i have ne: "messages this \<noteq> []" by auto
  from l have "i = length (messages this) - 1" by simp
  with ne have "last (messages this) = messages this ! i"
    by (simp add: last_conv_nth)
  with r w ne show "messages this \<noteq> [] \<and> role (last (messages this)) = ''assistant''
            \<and> waitingForFirstToken this"
    by simp
next
  assume a: "messages this \<noteq> [] \<and> role (last (messages this)) = ''assistant''
            \<and> waitingForFirstToken this"
  let ?i = "length (messages this) - 1"
  from a have i: "?i < length (messages this)" by simp
  from a have "last (messages this) = messages this ! ?i"
    by (simp add: last_conv_nth)
  with a have "role (messages this ! ?i) = ''assistant''" by simp
  with a i have "typing_indicator (bubbles (render d this) ! ?i)"
    by (simp add: indicator_nth)
  with i show "\<exists>i < length (bubbles (render d this)). typing_indicator (bubbles (render d this) ! i)"
    by (auto simp add: length_bubbles)
qed

text \<open>
  C4. The rendered message list has one block per message, and some block carries the
  typing indicator if and only if there is a last message, its role is \<open>assistant\<close> and
  \<open>waitingForFirstToken\<close> is true; a block that carries it is the block of the last message.
\<close>

theorem typing_indicator_last_only:
  "length (bubbles (render d this)) = length (messages this)
   \<and> ((\<exists>i < length (bubbles (render d this)). typing_indicator (bubbles (render d this) ! i))
      \<longleftrightarrow> (messages this \<noteq> [] \<and> role (last (messages this)) = ''assistant''
            \<and> waitingForFirstToken this))
   \<and> (\<forall>i < length (bubbles (render d this)).
         typing_indicator (bubbles (render d this) ! i) \<longrightarrow> Suc i = length (messages this))"
  by (simp add: indicator_exists_iff) (simp add: length_bubbles indicator_nth)

theorem typing_indicator_last_only_witness:
  "length (bubbles (render plain_deps pending_window)) = 2
   \<and> typing_indicator (bubbles (render plain_deps pending_window) ! 1)
   \<and> \<not> typing_indicator (bubbles (render plain_deps pending_window) ! 0)
   \<and> Suc 1 = length (messages pending_window)
   \<and> \<not> typing_indicator
        (bubbles (render plain_deps (pending_window\<lparr>waitingForFirstToken := False\<rparr>)) ! 1)"
proof -
  let ?w = pending_window
  let ?v = "pending_window\<lparr>waitingForFirstToken := False\<rparr>"
  let ?b = "bubbles (render plain_deps ?w)"
  let ?c = "bubbles (render plain_deps ?v)"
  note w = typing_indicator_last_only [of plain_deps ?w]
  note v = typing_indicator_last_only [of plain_deps ?v]
  have lw: "length (messages ?w) = 2" by simp
  have len: "length ?b = 2" using w [THEN conjunct1] lw by (rule trans)
  have "messages ?w \<noteq> [] \<and> role (last (messages ?w)) = ''assistant''
      \<and> waitingForFirstToken ?w"
    by simp
  with w [THEN conjunct2, THEN conjunct1]
  have "\<exists>i < length ?b. typing_indicator (?b ! i)" by (rule iffD2)
  then obtain i where i: "i < length ?b" and t: "typing_indicator (?b ! i)" by blast
  from w [THEN conjunct2, THEN conjunct2] i t have "Suc i = length (messages ?w)" by blast
  with lw have "i = 1" by simp
  with t have one: "typing_indicator (?b ! 1)" by simp
  have zero: "\<not> typing_indicator (?b ! 0)"
  proof
    assume "typing_indicator (?b ! 0)"
    moreover have "0 < length ?b" using len by simp
    ultimately have "Suc 0 = length (messages ?w)"
      using w [THEN conjunct2, THEN conjunct2] by blast
    then have "Suc 0 = 2" using lw by (rule trans)
    then show False by simp
  qed
  have lv: "length ?c = 2" using v [THEN conjunct1] by simp
  have nv: "\<not> (messages ?v \<noteq> [] \<and> role (last (messages ?v)) = ''assistant''
      \<and> waitingForFirstToken ?v)"
    by simp
  have none: "\<not> (\<exists>i < length ?c. typing_indicator (?c ! i))"
  proof
    assume a: "\<exists>i < length ?c. typing_indicator (?c ! i)"
    from v [THEN conjunct2, THEN conjunct1] a
    have "messages ?v \<noteq> [] \<and> role (last (messages ?v)) = ''assistant''
      \<and> waitingForFirstToken ?v"
      by (rule iffD1)
    with nv show False by (rule notE)
  qed
  have "(1::nat) < 2" by simp
  with none lv have off: "\<not> typing_indicator (?c ! 1)" by metis
  from len one zero lw off show ?thesis by simp
qed

subsection \<open>The scroll controller\<close>

lemma fold_updated:
  "fold updated css p =
     p\<lparr>raf_queue :=
         raf_queue p @ replicate (length (filter (\<lambda>cs. ''messages'' \<in> set cs) css)) ScrollCallback\<rparr>"
  by (induction css arbitrary: p)
     (simp_all add: updated_def scrollToBottom_def replicate_app_Cons_same)

lemma min_scrollHeight: "min (scrollHeight c) (max_scroll_offset c) = max_scroll_offset c"
  by (simp add: max_scroll_offset_def)

lemma fold_scroll_callbacks:
  "querySelector_messages_scroll q = Some c \<Longrightarrow>
   fold run_callback cbs q =
     q\<lparr>querySelector_messages_scroll :=
         Some (c\<lparr>scrollTo_calls := scrollTo_calls c @ replicate (length cbs) (smooth_to_bottom c),
                scroll_goal := (if cbs = [] then scroll_goal c else max_scroll_offset c)\<rparr>)\<rparr>"
proof (induction cbs arbitrary: q c)
  case Nil
  then show ?case by simp
next
  case (Cons a cbs)
  let ?c = "scrollTo c (smooth_to_bottom c)"
  let ?q = "q\<lparr>querySelector_messages_scroll := Some ?c\<rparr>"
  from Cons.prems have step: "run_callback a q = ?q"
    by (cases a) (simp add: scroll_callback_def)
  have "querySelector_messages_scroll ?q = Some ?c" by simp
  from Cons.IH [OF this] step show ?case
    by (simp add: scrollTo_def min_scrollHeight max_scroll_offset_def replicate_app_Cons_same)
qed

lemma fold_no_viewport:
  "querySelector_messages_scroll q = None \<Longrightarrow> fold run_callback cbs q = q"
proof (induction cbs)
  case Nil
  show ?case by simp
next
  case (Cons a cbs)
  then show ?case by (cases a) (simp add: scroll_callback_def)
qed

text \<open>
  C5 (amended). Every update that changed \<open>messages\<close> queues one callback of its own for
  the next frame; nothing cancels or replaces a callback already queued. When the frame
  runs and the viewport exists, each queued callback asks for a smooth scroll to
  \<open>scrollHeight\<close>, the same request every time, so after at least one such update the
  viewport is heading to its maximum scroll offset, and it has received as many
  \<open>scrollTo\<close> calls as callbacks were queued.
\<close>

theorem scroll_after_updates:
  assumes "querySelector_messages_scroll p = Some c"
    and "0 < length (filter (\<lambda>cs. ''messages'' \<in> set cs) css)"
  shows "raf_queue (fold updated css p) =
           raf_queue p @ replicate (length (filter (\<lambda>cs. ''messages'' \<in> set cs) css)) ScrollCallback
     \<and> animation_frame (fold updated css p) =
         p\<lparr>querySelector_messages_scroll :=
             Some (c\<lparr>scrollTo_calls :=
                       scrollTo_calls c @
                       replicate (length (raf_queue p)
                                  + length (filter (\<lambda>cs. ''messages'' \<in> set cs) css))
                         (smooth_to_bottom c),
                    scroll_goal := max_scroll_offset c\<rparr>),
           raf_queue := []\<rparr>"
proof -
  let ?k = "length (filter (\<lambda>cs. ''messages'' \<in> set cs) css)"
  let ?p = "fold updated css p"
  have p: "?p = p\<lparr>raf_queue := raf_queue p @ replicate ?k ScrollCallback\<rparr>"
    by (simp add: fold_updated)
  have "querySelector_messages_scroll (?p\<lparr>raf_queue := []\<rparr>) = Some c"
    using assms(1) by (simp add: p)
  from fold_scroll_callbacks [OF this, of "raf_queue ?p"] assms(2)
  show ?thesis
    by (simp add: animation_frame_def p)
qed

theorem scroll_after_updates_witness:
  "querySelector_messages_scroll \<lparr>querySelector_messages_scroll = Some viewport_500, raf_queue = []\<rparr>
     = Some viewport_500
   \<and> raf_queue (fold updated [[''messages''], [''inputText''], [''messages'', ''isLoading'']]
        \<lparr>querySelector_messages_scroll = Some viewport_500, raf_queue = []\<rparr>)
       = [ScrollCallback, ScrollCallback]
   \<and> animation_frame (fold updated [[''messages''], [''inputText''], [''messages'', ''isLoading'']]
        \<lparr>querySelector_messages_scroll = Some viewport_500, raf_queue = []\<rparr>)
       = \<lparr>querySelector_messages_scroll =
            Some \<lparr>scrollHeight = 500, clientHeight = 200,
                  scrollTo_calls =
                    [\<lparr>scroll_top = 500, behavior = ''smooth''\<rparr>,
                     \<lparr>scroll_top = 500, behavior = ''smooth''\<rparr>],
                  scroll_goal = 300\<rparr>,
          raf_queue = []\<rparr>"
  using scroll_after_updates
    [of "\<lparr>querySelector_messages_scroll = Some viewport_500, raf_queue = []\<rparr>" viewport_500
        "[[''messages''], [''inputText''], [''messages'', ''isLoading'']]"]
  by (simp add: max_scroll_offset_def numeral_2_eq_2)

text \<open>
  C5 as stated fails in its second half: two updates of \<open>messages\<close> before a frame leave
  two callbacks pending, not one, and the frame calls \<open>scrollTo\<close> twice. The calls are not
  coalesced by the component; they agree because they ask for the same offset.
\<close>

theorem scroll_calls_not_coalesced:
  "raf_queue (updated [''messages''] (updated [''messages'']
      \<lparr>querySelector_messages_scroll = Some viewport_500, raf_queue = []\<rparr>))
     = [ScrollCallback, ScrollCallback]
   \<and> \<not> length (raf_queue (updated [''messages''] (updated [''messages'']
      \<lparr>querySelector_messages_scroll = Some viewport_500, raf_queue = []\<rparr>))) \<le> 1
   \<and> animation_frame (updated [''messages''] (updated [''messages'']
      \<lparr>querySelector_messages_scroll = Some viewport_500, raf_queue = []\<rparr>))
     = \<lparr>querySelector_messages_scroll =
          Some \<lparr>scrollHeight = 500, clientHeight = 200,
                scrollTo_calls =
                  [\<lparr>scroll_top = 500, behavior = ''smooth''\<rparr>,
                   \<lparr>scroll_top = 500, behavior = ''smooth''\<rparr>],
                scroll_goal = 300\<rparr>,
        raf_queue = []\<rparr>"
  by (simp add: updated_def scrollToBottom_def animation_frame_def scroll_callback_def
      scrollTo_def max_scroll_offset_def)

text \<open>
  C9. When the frame callback runs and \<open>querySelector\<close> finds no \<open>.messages-scroll\<close>
  element, it changes nothing: no \<open>scrollTo\<close> is called and nothing is raised. A whole
  frame over such a page only empties the queue.
\<close>

theorem scroll_callback_no_viewport:
  assumes "querySelector_messages_scroll p = None"
  shows "scroll_callback p = p \<and> animation_frame p = p\<lparr>raf_queue := []\<rparr>"
  using assms by (simp add: scroll_callback_def animation_frame_def fold_no_viewport)

theorem scroll_callback_no_viewport_witness:
  "querySelector_messages_scroll
     \<lparr>querySelector_messages_scroll = None, raf_queue = [ScrollCallback]\<rparr> = None
   \<and> animation_frame \<lparr>querySelector_messages_scroll = None, raf_queue = [ScrollCallback]\<rparr>
       = \<lparr>querySelector_messages_scroll = None, raf_queue = []\<rparr>"
  using scroll_callback_no_viewport
    [of "\<lparr>querySelector_messages_scroll = None, raf_queue = [ScrollCallback]\<rparr>"]
  by simp

end
